theory Spec2Isabelle
  imports Complex_Main "HOL-Library.Word" "HOL-Library.Sublist"
begin

section \<open>Data model\<close>

text \<open>
  The module \<^verbatim>\<open>rtutils/image_helper.py\<close> converts between per-slice contours in
  patient coordinates and a dense voxel mask. Its numbers are numpy float64 values; they
  are modelled as real numbers, so that float64 arithmetic is exact here. The one place
  where the source narrows to float32, the entries of the two 4x4 matrices
  (\<^verbatim>\<open>np.identity(4, dtype=np.float32)\<close>), is kept visible: the matrix builders take the
  narrowing function as their first argument.

  Exceptions are values of the type \<open>error\<close>: \<open>InvalidGeometry\<close> is the
  \<^verbatim>\<open>Exception("Invalid Image Orientation (Patient) attribute")\<close> of
  \<^verbatim>\<open>get_slice_directions\<close>, \<open>EmptyContour\<close> the
  \<^verbatim>\<open>Exception("Unable to find contour in non empty mask, ...")\<close> of
  \<^verbatim>\<open>validate_contours\<close>; the others are the Python and numpy exceptions of the same
  name.
\<close>

datatype error =
  InvalidGeometry | EmptyContour | IndexError | ValueError | UnboundLocalError | TypeError

type_synonym vec3 = "real \<times> real \<times> real"
type_synonym vec4 = "real \<times> real \<times> real \<times> real"
type_synonym mat4 = "vec4 \<times> vec4 \<times> vec4 \<times> vec4"

text \<open>
  A slice is a pydicom \<^verbatim>\<open>Dataset\<close>. The attributes the module reads have a fixed value
  multiplicity in DICOM (Image Orientation (Patient): 6, Image Position (Patient): 3,
  Pixel Spacing: 2), so they are tuples of that size; Rows and Columns are unsigned.
\<close>

record Dataset =
  SOPInstanceUID :: string
  Rows :: nat
  Columns :: nat
  PixelSpacing :: "real \<times> real"
  ImagePositionPatient :: vec3
  ImageOrientationPatient :: "real \<times> real \<times> real \<times> real \<times> real \<times> real"

section \<open>Geometry resolver\<close>

text \<open>\<^verbatim>\<open>np.dot\<close>, \<^verbatim>\<open>np.cross\<close> and \<^verbatim>\<open>np.linalg.norm\<close> on vectors of length 3.\<close>

definition dot :: "vec3 \<Rightarrow> vec3 \<Rightarrow> real" where
  "dot u v = (case u of (u0, u1, u2) \<Rightarrow> case v of (v0, v1, v2) \<Rightarrow>
     u0 * v0 + u1 * v1 + u2 * v2)"

definition cross :: "vec3 \<Rightarrow> vec3 \<Rightarrow> vec3" where
  "cross u v = (case u of (u0, u1, u2) \<Rightarrow> case v of (v0, v1, v2) \<Rightarrow>
     (u1 * v2 - u2 * v1, u2 * v0 - u0 * v2, u0 * v1 - u1 * v0))"

definition linalg_norm :: "vec3 \<Rightarrow> real" where
  "linalg_norm v = sqrt (dot v v)"

text \<open>
  \<^verbatim>\<open>np.allclose(a, b, atol=t)\<close> on two scalars is \<^verbatim>\<open>|a - b| <= atol + rtol * |b|\<close>,
  and the source leaves \<^verbatim>\<open>rtol\<close> at numpy's default \<^verbatim>\<open>1e-05\<close>.
\<close>

definition allclose :: "real \<Rightarrow> real \<Rightarrow> real \<Rightarrow> bool" where
  "allclose a b atol = (\<bar>a - b\<bar> \<le> atol + (1 / 100000) * \<bar>b\<bar>)"

definition get_slice_directions :: "Dataset \<Rightarrow> error + (vec3 \<times> vec3 \<times> vec3)" where
  "get_slice_directions series_slice =
     (case ImageOrientationPatient series_slice of (o0, o1, o2, o3, o4, o5) \<Rightarrow>
        let row_direction = (o0, o1, o2);
            column_direction = (o3, o4, o5);
            slice_direction = cross row_direction column_direction
        in if \<not> allclose (dot row_direction column_direction) 0 (1 / 1000)
              \<or> \<not> allclose (linalg_norm slice_direction) 1 (1 / 1000)
           then Inl InvalidGeometry
           else Inr (row_direction, column_direction, slice_direction))"

definition get_slice_position :: "Dataset \<Rightarrow> error + real" where
  "get_slice_position series_slice =
     (case get_slice_directions series_slice of
        Inl e \<Rightarrow> Inl e
      | Inr (_, _, slice_direction) \<Rightarrow>
          Inr (dot slice_direction (ImagePositionPatient series_slice)))"

definition get_spacing_between_slices :: "Dataset list \<Rightarrow> error + real" where
  "get_spacing_between_slices series_data =
     (if length series_data > 1 then
        (case get_slice_position (series_data ! 0) of
           Inl e \<Rightarrow> Inl e
         | Inr first \<Rightarrow>
             (case get_slice_position (last series_data) of
                Inl e \<Rightarrow> Inl e
              | Inr lst \<Rightarrow> Inr ((lst - first) / real (length series_data - 1))))
      else Inr 1)"

section \<open>Transform builder\<close>

text \<open>
  A 4x4 matrix is the tuple of its four rows. \<open>assign_column f32 j v m\<close> is the statement
  \<^verbatim>\<open>mat[:3, j] = v\<close> on a float32 matrix: the three values are narrowed by \<open>f32\<close> and
  stored in column \<open>j\<close> of the first three rows.
\<close>

definition identity4 :: mat4 where
  "identity4 = ((1, 0, 0, 0), (0, 1, 0, 0), (0, 0, 1, 0), (0, 0, 0, 1))"

definition put :: "nat \<Rightarrow> real \<Rightarrow> vec4 \<Rightarrow> vec4" where
  "put j x row = (case row of (a, b, c, d) \<Rightarrow>
     if j = 0 then (x, b, c, d) else if j = 1 then (a, x, c, d)
     else if j = 2 then (a, b, x, d) else (a, b, c, x))"

definition assign_column :: "(real \<Rightarrow> real) \<Rightarrow> nat \<Rightarrow> vec3 \<Rightarrow> mat4 \<Rightarrow> mat4" where
  "assign_column f32 j v m = (case v of (x, y, z) \<Rightarrow> case m of (m0, m1, m2, m3) \<Rightarrow>
     (put j (f32 x) m0, put j (f32 y) m1, put j (f32 z) m2, m3))"

text \<open>A vector times a scalar and a vector divided by a scalar, element by element.\<close>

definition times_scalar :: "vec3 \<Rightarrow> real \<Rightarrow> vec3" where
  "times_scalar v s = (case v of (x, y, z) \<Rightarrow> (x * s, y * s, z * s))"

definition divide_scalar :: "vec3 \<Rightarrow> real \<Rightarrow> vec3" where
  "divide_scalar v s = (case v of (x, y, z) \<Rightarrow> (x / s, y / s, z / s))"

definition get_pixel_to_patient_transformation_matrix ::
    "(real \<Rightarrow> real) \<Rightarrow> Dataset list \<Rightarrow> error + mat4" where
  "get_pixel_to_patient_transformation_matrix f32 series_data =
     (case series_data of
        [] \<Rightarrow> Inl IndexError
      | first_slice # _ \<Rightarrow>
          let offset = ImagePositionPatient first_slice;
              (row_spacing, column_spacing) = PixelSpacing first_slice
          in (case get_spacing_between_slices series_data of
               Inl e \<Rightarrow> Inl e
             | Inr slice_spacing \<Rightarrow>
                 (case get_slice_directions first_slice of
                    Inl e \<Rightarrow> Inl e
                  | Inr (row_direction, column_direction, slice_direction) \<Rightarrow>
                      let mat = identity4;
                          mat = assign_column f32 0 (times_scalar row_direction row_spacing) mat;
                          mat = assign_column f32 1
                                  (times_scalar column_direction column_spacing) mat;
                          mat = assign_column f32 2
                                  (times_scalar slice_direction slice_spacing) mat;
                          mat = assign_column f32 3 offset mat
                      in Inr mat)))"

text \<open>
  The inverse matrix. \<open>linear\<close> is the 3x3 float32 matrix whose rows are the directions
  divided by the spacings; \<^verbatim>\<open>offset.dot(-linear.T)\<close> has the entries
  \<open>dot offset (- row j of linear)\<close>, computed in float64 from the narrowed rows and
  narrowed again when stored in the float32 matrix. A division by a spacing of zero
  yields \<^verbatim>\<open>inf\<close> or \<^verbatim>\<open>nan\<close> in numpy and not an exception; the reals have neither, so
  the entries of this matrix mean what numpy computes only for nonzero spacings.
\<close>

definition narrow3 :: "(real \<Rightarrow> real) \<Rightarrow> vec3 \<Rightarrow> vec3" where
  "narrow3 f32 v = (case v of (x, y, z) \<Rightarrow> (f32 x, f32 y, f32 z))"

definition negate3 :: "vec3 \<Rightarrow> vec3" where
  "negate3 v = (case v of (x, y, z) \<Rightarrow> (- x, - y, - z))"

definition get_patient_to_pixel_transformation_matrix ::
    "(real \<Rightarrow> real) \<Rightarrow> Dataset list \<Rightarrow> error + mat4" where
  "get_patient_to_pixel_transformation_matrix f32 series_data =
     (case series_data of
        [] \<Rightarrow> Inl IndexError
      | first_slice # _ \<Rightarrow>
          let offset = ImagePositionPatient first_slice;
              (row_spacing, column_spacing) = PixelSpacing first_slice
          in (case get_spacing_between_slices series_data of
               Inl e \<Rightarrow> Inl e
             | Inr slice_spacing \<Rightarrow>
                 (case get_slice_directions first_slice of
                    Inl e \<Rightarrow> Inl e
                  | Inr (row_direction, column_direction, slice_direction) \<Rightarrow>
                      let linear0 = narrow3 f32 (divide_scalar row_direction row_spacing);
                          linear1 = narrow3 f32 (divide_scalar column_direction column_spacing);
                          linear2 = narrow3 f32 (divide_scalar slice_direction slice_spacing);
                          (a0, a1, a2) = linear0;
                          (b0, b1, b2) = linear1;
                          (c0, c1, c2) = linear2;
                          mat = ((a0, a1, a2, 0), (b0, b1, b2, 0), (c0, c1, c2, 0),
                                 (0, 0, 0, 1));
                          mat = assign_column f32 3
                                  (dot offset (negate3 linear0), dot offset (negate3 linear1),
                                   dot offset (negate3 linear2)) mat
                      in Inr mat)))"

text \<open>
  \<^verbatim>\<open>apply_transformation_to_3d_points\<close>: every point gets a fourth coordinate 1, is
  multiplied by the transposed matrix, and loses the fourth coordinate again.
\<close>

definition dot4 :: "vec4 \<Rightarrow> vec4 \<Rightarrow> real" where
  "dot4 u v = (case u of (u0, u1, u2, u3) \<Rightarrow> case v of (v0, v1, v2, v3) \<Rightarrow>
     u0 * v0 + u1 * v1 + u2 * v2 + u3 * v3)"

definition apply_transformation_to_3d_points :: "vec3 list \<Rightarrow> mat4 \<Rightarrow> vec3 list" where
  "apply_transformation_to_3d_points points transformation_matrix =
     (case transformation_matrix of (m0, m1, m2, m3) \<Rightarrow>
        map (\<lambda>(x, y, z). let vec = (x, y, z, 1) in (dot4 vec m0, dot4 vec m1, dot4 vec m2))
          points)"



text \<open>
  Rounding as numpy does it. \<^verbatim>\<open>np.around\<close> rounds to the nearest integer and a tie to
  the even one.

  \<open>float32\<close> is the IEEE 754 binary32 value nearest to a real number, a tie going to the
  even significand. A number of magnitude \<open>2^-126\<close> or more is rounded to 24 significant
  bits: its unit in the last place is \<open>2^(e - 23)\<close>, where \<open>e\<close> is the floor of its binary
  logarithm. Below \<open>2^-126\<close> the unit stays \<open>2^-149\<close> (the subnormal numbers), so that a
  number below \<open>2^-150\<close> becomes 0. A number of magnitude \<open>2^128 - 2^103\<close> or more becomes
  an infinity in binary32, which the real numbers do not have: \<open>float32\<close> says what is
  stored only below that bound, and every statement below that uses it keeps its
  arguments at \<open>2^127\<close> or less. \<open>normal32\<close> holds of the numbers that binary32 stores
  with full relative precision: 0 and the magnitudes from \<open>2^-126\<close> to \<open>2^127\<close>.
\<close>

definition np_around :: "real \<Rightarrow> int" where
  "np_around x = (let f = \<lfloor>x\<rfloor>; d = x - of_int f
     in if d < 1 / 2 then f else if 1 / 2 < d then f + 1 else if even f then f else f + 1)"

definition float32 :: "real \<Rightarrow> real" where
  "float32 x = (if x = 0 then 0
     else let e = max \<lfloor>log 2 \<bar>x\<bar>\<rfloor> (- 126);
              u = 2 powi (e - 23)
          in of_int (np_around (x / u)) * u)"

definition normal32 :: "real \<Rightarrow> bool" where
  "normal32 x \<longleftrightarrow> x = 0 \<or> (2 powi (- 126) \<le> \<bar>x\<bar> \<and> \<bar>x\<bar> \<le> 2 powi 127)"

definition all3 :: "(real \<Rightarrow> bool) \<Rightarrow> vec3 \<Rightarrow> bool" where
  "all3 P v = (case v of (x, y, z) \<Rightarrow> P x \<and> P y \<and> P z)"

section \<open>Mask rasterizer\<close>

text \<open>
  A contour of the RT structure set: the referenced SOP instance UID of each item of its
  Contour Image Sequence, and its flat list of coordinates.
\<close>

record Contour =
  ContourImageSequence :: "string list"
  ContourData :: "real list"

definition get_slice_contour_data :: "Dataset \<Rightarrow> Contour list \<Rightarrow> real list list" where
  "get_slice_contour_data series_slice contour_sequence =
     [ContourData contour.
        contour \<leftarrow> contour_sequence,
        contour_image \<leftarrow> ContourImageSequence contour,
        contour_image = SOPInstanceUID series_slice]"

text \<open>
  \<^verbatim>\<open>np.reshape(contour_coords, [len(contour_coords) // 3, 3])\<close> raises a
  \<^verbatim>\<open>ValueError\<close> when the length is not a multiple of 3.
\<close>

fun rows_of_3 :: "real list \<Rightarrow> vec3 list" where
  "rows_of_3 (x # y # z # rest) = (x, y, z) # rows_of_3 rest"
| "rows_of_3 _ = []"

definition np_reshape :: "real list \<Rightarrow> error + vec3 list" where
  "np_reshape contour_coords =
     (if length contour_coords mod 3 = 0 then Inr (rows_of_3 contour_coords)
      else Inl ValueError)"

text \<open>
  The polygon handed to the fill routine. \<^verbatim>\<open>squeeze\<close> removes every axis of length 1:
  the array of the rounded (row, column) pairs keeps its shape \<open>(n, 2)\<close> unless the
  contour has exactly one point, where it becomes the one-dimensional array of the two
  coordinates. The conversion to \<^verbatim>\<open>np.int32\<close> is the identity on pixel indices; values
  outside the 32-bit range are not modelled.
\<close>

datatype polygon = Vertices "(int \<times> int) list" | Coordinates "int \<times> int"

definition squeeze :: "(int \<times> int) list \<Rightarrow> polygon" where
  "squeeze vs = (case vs of [v] \<Rightarrow> Coordinates v | _ \<Rightarrow> Vertices vs)"

text \<open>
  \<^verbatim>\<open>skimage.draw.polygon2mask\<close> is a library routine. It either raises or returns a
  boolean array of the shape it is given; the model takes it as a parameter that yields
  the exception or the value of each pixel, and \<open>as_array\<close> lays the values out in the
  given shape.
\<close>

type_synonym fill_routine = "nat \<times> nat \<Rightarrow> polygon \<Rightarrow> error + (nat \<Rightarrow> nat \<Rightarrow> bool)"

definition as_array :: "nat \<times> nat \<Rightarrow> (nat \<Rightarrow> nat \<Rightarrow> bool) \<Rightarrow> bool list list" where
  "as_array image_shape f = (case image_shape of (d0, d1) \<Rightarrow>
     map (\<lambda>a. map (\<lambda>b. f a b) [0..<d1]) [0..<d0])"

definition create_empty_slice_mask :: "Dataset \<Rightarrow> bool list list" where
  "create_empty_slice_mask series_slice =
     (let mask_dims = (Columns series_slice, Rows series_slice)
      in replicate (fst mask_dims) (replicate (snd mask_dims) False))"

text \<open>
  The loop of \<^verbatim>\<open>get_slice_mask_from_slice_contour_data\<close> over the contours of a slice.
  Its state is the list \<^verbatim>\<open>polygons\<close> and the variable \<^verbatim>\<open>polygon\<close>, which is unbound
  (\<open>None\<close>) until the first iteration has run.
\<close>

fun polygon_loop ::
    "mat4 \<Rightarrow> real list list \<Rightarrow> polygon list \<Rightarrow> polygon option
       \<Rightarrow> error + (polygon list \<times> polygon option)" where
  "polygon_loop transformation_matrix [] polygons polygon = Inr (polygons, polygon)"
| "polygon_loop transformation_matrix (contour_coords # rest) polygons polygon =
     (case np_reshape contour_coords of
        Inl e \<Rightarrow> Inl e
      | Inr reshaped_contour_data \<Rightarrow>
          let translated_contour_data =
                apply_transformation_to_3d_points reshaped_contour_data transformation_matrix;
              polygon = squeeze (map (\<lambda>(x, y, z). (np_around x, np_around y))
                                   translated_contour_data)
          in polygon_loop transformation_matrix rest (polygons @ [polygon]) (Some polygon))"

text \<open>
  After the loop the source builds an empty slice mask, overwrites the variable with the
  result of \<^verbatim>\<open>polygon2mask(image_shape=image_shape, polygon=polygon)\<close> and returns it.
\<close>

definition get_slice_mask_from_slice_contour_data ::
    "fill_routine \<Rightarrow> Dataset \<Rightarrow> real list list \<Rightarrow> mat4 \<Rightarrow> nat \<times> nat
       \<Rightarrow> error + bool list list" where
  "get_slice_mask_from_slice_contour_data polygon2mask series_slice slice_contour_data
       transformation_matrix image_shape =
     (case polygon_loop transformation_matrix slice_contour_data [] None of
        Inl e \<Rightarrow> Inl e
      | Inr (polygons, polygon) \<Rightarrow>
          let slice_mask = create_empty_slice_mask series_slice
          in (case polygon of
                None \<Rightarrow> Inl UnboundLocalError
              | Some polygon \<Rightarrow>
                  (case polygon2mask image_shape polygon of
                     Inl e \<Rightarrow> Inl e
                   | Inr f \<Rightarrow> Inr (as_array image_shape f))))"

text \<open>
  The union of the filled polygons of all contours of a slice, as the specification
  words the result: a pixel is set when the fill of at least one contour sets it.
\<close>

definition union_of_filled_polygons ::
    "fill_routine \<Rightarrow> real list list \<Rightarrow> mat4 \<Rightarrow> nat \<times> nat \<Rightarrow> error + bool list list" where
  "union_of_filled_polygons polygon2mask slice_contour_data transformation_matrix image_shape =
     (case polygon_loop transformation_matrix slice_contour_data [] None of
        Inl e \<Rightarrow> Inl e
      | Inr (polygons, _) \<Rightarrow>
          if \<exists>p \<in> set polygons. isl (polygon2mask image_shape p) then Inl ValueError
          else Inr (as_array image_shape
                 (\<lambda>a b. \<exists>p \<in> set polygons. projr (polygon2mask image_shape p) a b)))"

section \<open>Series orchestrator: contours to mask\<close>

text \<open>
  The three-dimensional boolean mask: its shape and its cells, \<open>cells m ! a ! b ! k\<close>
  being the element \<^verbatim>\<open>m[a, b, k]\<close>. \<open>plane m k\<close> is the value of \<^verbatim>\<open>m[:, :, k]\<close>.
\<close>

record ndarray3 =
  shape3 :: "nat \<times> nat \<times> nat"
  cells :: "bool list list list"

definition zeros3 :: "nat \<times> nat \<times> nat \<Rightarrow> ndarray3" where
  "zeros3 dims = (case dims of (d0, d1, d2) \<Rightarrow>
     \<lparr>shape3 = dims, cells = replicate d0 (replicate d1 (replicate d2 False))\<rparr>)"

definition plane :: "ndarray3 \<Rightarrow> nat \<Rightarrow> bool list list" where
  "plane m k = map (map (\<lambda>ks. ks ! k)) (cells m)"

definition create_empty_series_mask :: "Dataset list \<Rightarrow> error + ndarray3" where
  "create_empty_series_mask series_data =
     (case series_data of
        [] \<Rightarrow> Inl IndexError
      | ref_dicom_image # _ \<Rightarrow>
          let mask_dims = (Columns ref_dicom_image, Rows ref_dicom_image, length series_data)
          in Inr (zeros3 mask_dims))"

text \<open>
  The assignment \<^verbatim>\<open>mask[:, :, i] = slice_mask\<close>. An index outside the third axis raises
  an \<^verbatim>\<open>IndexError\<close>; a value of another shape than the plane raises a \<^verbatim>\<open>ValueError\<close>
  (numpy would first try to broadcast it, which does not arise here: the value always has
  the shape of the plane).
\<close>

definition assign_plane :: "ndarray3 \<Rightarrow> nat \<Rightarrow> bool list list \<Rightarrow> error + ndarray3" where
  "assign_plane series_mask i slice_mask = (case shape3 series_mask of (d0, d1, d2) \<Rightarrow>
     if d2 \<le> i then Inl IndexError
     else if length slice_mask \<noteq> d0 \<or> (\<exists>row \<in> set slice_mask. length row \<noteq> d1)
       then Inl ValueError
     else Inr (series_mask\<lparr>cells :=
            map (\<lambda>(a, row). map (\<lambda>(b, ks). ks[i := slice_mask ! a ! b]) (enumerate 0 row))
              (enumerate 0 (cells series_mask))\<rparr>))"

text \<open>The loop over \<^verbatim>\<open>enumerate(series_data)\<close>; \<open>i\<close> is the index of the next slice.\<close>

fun create_series_mask_loop ::
    "fill_routine \<Rightarrow> Contour list \<Rightarrow> mat4 \<Rightarrow> nat \<times> nat \<Rightarrow> nat \<Rightarrow> Dataset list \<Rightarrow> ndarray3
       \<Rightarrow> error + ndarray3" where
  "create_series_mask_loop polygon2mask contour_sequence transformation_matrix image_shape
       i [] series_mask = Inr series_mask"
| "create_series_mask_loop polygon2mask contour_sequence transformation_matrix image_shape
       i (series_slice # rest) series_mask =
     (let slice_contour_data = get_slice_contour_data series_slice contour_sequence
      in if length slice_contour_data \<noteq> 0 then
           (case get_slice_mask_from_slice_contour_data polygon2mask series_slice
                   slice_contour_data transformation_matrix image_shape of
              Inl e \<Rightarrow> Inl e
            | Inr slice_mask \<Rightarrow>
                (case assign_plane series_mask i slice_mask of
                   Inl e \<Rightarrow> Inl e
                 | Inr assigned \<Rightarrow>
                     create_series_mask_loop polygon2mask contour_sequence
                       transformation_matrix image_shape (Suc i) rest assigned))
         else create_series_mask_loop polygon2mask contour_sequence transformation_matrix
                image_shape (Suc i) rest series_mask)"

definition create_series_mask_from_contour_sequence ::
    "(real \<Rightarrow> real) \<Rightarrow> fill_routine \<Rightarrow> Dataset list \<Rightarrow> Contour list \<Rightarrow> error + ndarray3" where
  "create_series_mask_from_contour_sequence f32 polygon2mask series_data contour_sequence =
     (case create_empty_series_mask series_data of
        Inl e \<Rightarrow> Inl e
      | Inr empty_mask \<Rightarrow>
          (case get_patient_to_pixel_transformation_matrix f32 series_data of
             Inl e \<Rightarrow> Inl e
           | Inr transformation_matrix \<Rightarrow>
               let image_shape = (case shape3 empty_mask of (d0, d1, d2) \<Rightarrow> (d0, d1))
               in create_series_mask_loop polygon2mask contour_sequence
                    transformation_matrix image_shape 0 series_data empty_mask))"

section \<open>Arrays in the store\<close>

text \<open>
  The mask-to-contours direction works on the caller's array \<^verbatim>\<open>roi_data.mask\<close>, on views
  of it and on copies, and one of its functions writes into an array. To tell a write
  into a copy from a write into the caller's array, the arrays live in a store: a list of
  array values, an address being a position in the list. A new array is put at the end.
  A reference is what a Python variable holds: a whole array, or the view
  \<^verbatim>\<open>a[:, :, i]\<close> of a three-dimensional array, which shares the cells of \<^verbatim>\<open>a\<close>.

  A reference that does not lead to an array of the kind an operation works on yields
  \<open>TypeError\<close>; the module only hands boolean arrays to the tracer and to the copies, and
  only the \<^verbatim>\<open>uint8\<close> array of the line drawing is indexed by element.
\<close>

datatype ndarray = Vol ndarray3 | Grid "bool list list" | Bytes "8 word list list"

type_synonym store = "ndarray list"

datatype ref = Whole nat | PlaneOf nat nat

definition lookup :: "store \<Rightarrow> nat \<Rightarrow> ndarray option" where
  "lookup h a = (if a < length h then Some (h ! a) else None)"

definition alloc :: "ndarray \<Rightarrow> store \<Rightarrow> nat \<times> store" where
  "alloc v h = (length h, h @ [v])"

text \<open>The value of a two-dimensional boolean array, read through a reference.\<close>

definition bool_value :: "store \<Rightarrow> ref \<Rightarrow> bool list list option" where
  "bool_value h r =
     (case r of
        Whole a \<Rightarrow> (case lookup h a of Some (Grid g) \<Rightarrow> Some g | _ \<Rightarrow> None)
      | PlaneOf a i \<Rightarrow> (case lookup h a of Some (Vol v) \<Rightarrow> Some (plane v i) | _ \<Rightarrow> None))"

text \<open>\<^verbatim>\<open>a[:, :, i]\<close>: a view, or an \<^verbatim>\<open>IndexError\<close> when the third axis is shorter.\<close>

definition take_plane :: "store \<Rightarrow> nat \<Rightarrow> nat \<Rightarrow> error + ref" where
  "take_plane h a i =
     (case lookup h a of
        Some (Vol v) \<Rightarrow>
          (case shape3 v of (d0, d1, d2) \<Rightarrow>
             if i < d2 then Inr (PlaneOf a i) else Inl IndexError)
      | _ \<Rightarrow> Inl TypeError)"

text \<open>\<^verbatim>\<open>np.sum\<close> of a boolean array: the number of its true cells.\<close>

definition np_sum :: "store \<Rightarrow> ref \<Rightarrow> error + nat" where
  "np_sum h r =
     (case bool_value h r of
        None \<Rightarrow> Inl TypeError
      | Some g \<Rightarrow> Inr (sum_list (map (\<lambda>row. length (filter (\<lambda>b. b) row)) g)))"

text \<open>\<^verbatim>\<open>.copy()\<close>, \<^verbatim>\<open>.astype(np.uint8)\<close> and \<^verbatim>\<open>.astype(bool)\<close> each make a new array.\<close>

definition copy :: "ref \<Rightarrow> store \<Rightarrow> (error + ref) \<times> store" where
  "copy r h =
     (case bool_value h r of
        None \<Rightarrow> (Inl TypeError, h)
      | Some g \<Rightarrow> (case alloc (Grid g) h of (a, h1) \<Rightarrow> (Inr (Whole a), h1)))"

definition astype_uint8 :: "ref \<Rightarrow> store \<Rightarrow> (error + nat) \<times> store" where
  "astype_uint8 r h =
     (case bool_value h r of
        None \<Rightarrow> (Inl TypeError, h)
      | Some g \<Rightarrow>
          (case alloc (Bytes (map (map (\<lambda>b. if b then 1 else 0)) g)) h of
             (a, h1) \<Rightarrow> (Inr a, h1)))"

definition astype_bool :: "nat \<Rightarrow> store \<Rightarrow> (error + ref) \<times> store" where
  "astype_bool a h =
     (case lookup h a of
        Some (Bytes g) \<Rightarrow>
          (case alloc (Grid (map (map (\<lambda>w. w \<noteq> 0)) g)) h of (b, h1) \<Rightarrow> (Inr (Whole b), h1))
      | _ \<Rightarrow> (Inl TypeError, h))"

text \<open>
  An index of Python on an axis of length \<open>n\<close>: \<open>0 .. n - 1\<close> count from the start,
  \<open>- n .. - 1\<close> from the end, anything else is out of range.
\<close>

definition py_index :: "nat \<Rightarrow> int \<Rightarrow> nat option" where
  "py_index n i =
     (if 0 \<le> i \<and> i < int n then Some (nat i)
      else if - int n \<le> i \<and> i < 0 then Some (nat (int n + i))
      else None)"

text \<open>\<^verbatim>\<open>mask[end]\<close> on the \<^verbatim>\<open>uint8\<close> array at an address, for a pair of integers.\<close>

definition getitem :: "store \<Rightarrow> nat \<Rightarrow> int \<times> int \<Rightarrow> error + 8 word" where
  "getitem h a idx =
     (case lookup h a of
        Some (Bytes g) \<Rightarrow>
          (case py_index (length g) (fst idx) of
             None \<Rightarrow> Inl IndexError
           | Some r \<Rightarrow>
               (case py_index (length (g ! r)) (snd idx) of
                  None \<Rightarrow> Inl IndexError
                | Some c \<Rightarrow> Inr (g ! r ! c)))
      | _ \<Rightarrow> Inl TypeError)"

text \<open>
  \<^verbatim>\<open>mask[rr, cc] = fill_value\<close>: the value is stored at every listed pixel, and an
  \<^verbatim>\<open>IndexError\<close> is raised if one of them is out of range. The stored value is the
  fill value modulo 256.
\<close>

fun write_pixels ::
    "8 word list list \<Rightarrow> (int \<times> int) list \<Rightarrow> 8 word \<Rightarrow> error + 8 word list list" where
  "write_pixels g [] v = Inr g"
| "write_pixels g ((r, c) # rest) v =
     (case py_index (length g) r of
        None \<Rightarrow> Inl IndexError
      | Some r' \<Rightarrow>
          (case py_index (length (g ! r')) c of
             None \<Rightarrow> Inl IndexError
           | Some c' \<Rightarrow> write_pixels (g[r' := (g ! r')[c' := v]]) rest v))"

definition setitems :: "store \<Rightarrow> nat \<Rightarrow> (int \<times> int) list \<Rightarrow> int \<Rightarrow> error + store" where
  "setitems h a pixels fill_value =
     (case lookup h a of
        Some (Bytes g) \<Rightarrow>
          (case write_pixels g pixels (word_of_int fill_value) of
             Inl e \<Rightarrow> Inl e
           | Inr g' \<Rightarrow> Inr (h[a := Bytes g']))
      | _ \<Rightarrow> Inl TypeError)"

text \<open>
  The length of the row that a row index addresses in the \<^verbatim>\<open>uint8\<close> array at an
  address (0 when there is no such row); the line drawing never changes it.
\<close>

definition row_width :: "store \<Rightarrow> nat \<Rightarrow> int \<Rightarrow> nat" where
  "row_width h a r =
     (case lookup h a of
        Some (Bytes g) \<Rightarrow>
          (case py_index (length g) r of Some r' \<Rightarrow> length (g ! r') | None \<Rightarrow> 0)
      | _ \<Rightarrow> 0)"

section \<open>Contour tracer\<close>

text \<open>
  \<^verbatim>\<open>skimage.measure.find_contours\<close> and \<^verbatim>\<open>skimage.draw.line_aa\<close> are library
  routines and parameters of the model. The tracer maps the value of a boolean array to
  the exception it raises or to its contours, each an array of (row, column) points with
  float64 coordinates. The
  line routine maps two end points to the pixels \<^verbatim>\<open>(rr, cc)\<close> of the line; its third
  result, the intensities, is not used by the source.
\<close>

type_synonym tracer = "bool list list \<Rightarrow> error + (real \<times> real) list list"
type_synonym line_routine = "int \<Rightarrow> int \<Rightarrow> int \<Rightarrow> int \<Rightarrow> (int \<times> int) list"

definition find_mask_contours ::
    "tracer \<Rightarrow> ref \<Rightarrow> bool \<Rightarrow> store \<Rightarrow> error + (real \<times> real) list list" where
  "find_mask_contours find_contours mask_ref approximate_contours h =
     (case bool_value h mask_ref of
        None \<Rightarrow> Inl TypeError
      | Some g \<Rightarrow> find_contours g)"

definition validate_contours :: "'a list \<Rightarrow> error + unit" where
  "validate_contours contours = (if length contours = 0 then Inl EmptyContour else Inr ())"

text \<open>
  The coordinates of a point are Python integers or numpy floats. An array is indexed
  by integers only: \<^verbatim>\<open>mask[end]\<close> with a float raises an \<^verbatim>\<open>IndexError\<close>.

  The loop of \<^verbatim>\<open>draw_line_upwards_from_point\<close> on the \<^verbatim>\<open>uint8\<close> array at address
  \<open>a\<close>. A run that does not end has the value \<open>None\<close>.
\<close>

datatype number = PyInt int | NpFloat real

partial_function (option) draw_line_loop ::
    "line_routine \<Rightarrow> nat \<Rightarrow> int \<times> int \<Rightarrow> int \<times> int \<Rightarrow> int \<Rightarrow> store
       \<Rightarrow> ((error + unit) \<times> store) option" where
  "draw_line_loop line_aa a start stop fill_value h =
     (case getitem h a stop of
        Inl e \<Rightarrow> Some (Inl e, h)
      | Inr v \<Rightarrow>
          if uint v \<noteq> fill_value then
            (case setitems h a (line_aa (fst start) (snd start) (fst stop) (snd stop))
                    fill_value of
               Inl e \<Rightarrow> Some (Inl e, h)
             | Inr h1 \<Rightarrow>
                 draw_line_loop line_aa a stop (fst stop, snd stop - 2) fill_value h1)
          else Some (Inr (), h))"

declare draw_line_loop.simps [code]

definition draw_line_upwards_from_point ::
    "line_routine \<Rightarrow> ref \<Rightarrow> number \<times> number \<Rightarrow> int \<Rightarrow> store
       \<Rightarrow> ((error + ref) \<times> store) option" where
  "draw_line_upwards_from_point line_aa mask_ref start fill_value h =
     (case astype_uint8 mask_ref h of
        (Inl e, h1) \<Rightarrow> Some (Inl e, h1)
      | (Inr a, h1) \<Rightarrow>
          (case start of
             (PyInt r, PyInt c) \<Rightarrow>
               (case draw_line_loop line_aa a (r, c) (r, c - 1) fill_value h1 of
                  None \<Rightarrow> None
                | Some (Inl e, h2) \<Rightarrow> Some (Inl e, h2)
                | Some (Inr _, h2) \<Rightarrow> Some (astype_bool a h2))
           | _ \<Rightarrow> Some (Inl IndexError, h1)))"

text \<open>
  \<^verbatim>\<open>create_pin_hole_mask\<close>: the loop runs over every contour the tracer returned and
  starts a line at the first point of each, a pair of float64 values.
\<close>

fun pin_hole_loop ::
    "line_routine \<Rightarrow> (real \<times> real) list list \<Rightarrow> ref \<Rightarrow> store
       \<Rightarrow> ((error + ref) \<times> store) option" where
  "pin_hole_loop line_aa [] pin_hole_mask h = Some (Inr pin_hole_mask, h)"
| "pin_hole_loop line_aa (child_contour # rest) pin_hole_mask h =
     (case child_contour of
        [] \<Rightarrow> Some (Inl IndexError, h)
      | (r, c) # _ \<Rightarrow>
          let line_start = (NpFloat r, NpFloat c)
          in (case draw_line_upwards_from_point line_aa pin_hole_mask line_start 0 h of
                None \<Rightarrow> None
              | Some (Inl e, h1) \<Rightarrow> Some (Inl e, h1)
              | Some (Inr drawn, h1) \<Rightarrow> pin_hole_loop line_aa rest drawn h1))"

definition create_pin_hole_mask ::
    "tracer \<Rightarrow> line_routine \<Rightarrow> ref \<Rightarrow> bool \<Rightarrow> store \<Rightarrow> ((error + ref) \<times> store) option" where
  "create_pin_hole_mask find_contours line_aa mask_ref approximate_contours h =
     (case find_mask_contours find_contours mask_ref approximate_contours h of
        Inl e \<Rightarrow> Some (Inl e, h)
      | Inr contours \<Rightarrow>
          (case copy mask_ref h of
             (Inl e, h1) \<Rightarrow> Some (Inl e, h1)
           | (Inr pin_hole_mask, h1) \<Rightarrow> pin_hole_loop line_aa contours pin_hole_mask h1))"

section \<open>Series orchestrator: mask to contours\<close>

text \<open>
  The ROI descriptor: the address of the three-dimensional boolean array
  \<^verbatim>\<open>roi_data.mask\<close> and the two flags.
\<close>

record ROIData =
  roi_mask :: nat
  use_pin_hole :: bool
  approximate_contours :: bool

text \<open>
  The formatting of the contours of slice \<open>i\<close>: the index is appended to every point as
  third coordinate, the points are transformed and flattened. \<^verbatim>\<open>np.concatenate\<close> raises
  a \<^verbatim>\<open>ValueError\<close> for a contour without points, whose array has one dimension only.
\<close>

fun format_contours :: "mat4 \<Rightarrow> nat \<Rightarrow> (real \<times> real) list list \<Rightarrow> error + real list list" where
  "format_contours transformation_matrix i [] = Inr []"
| "format_contours transformation_matrix i (contour # rest) =
     (if contour = [] then Inl ValueError
      else
        let with_z = map (\<lambda>(x, y). (x, y, real i)) contour;
            transformed_contour = apply_transformation_to_3d_points with_z transformation_matrix;
            dicom_formatted_contour = concat (map (\<lambda>(x, y, z). [x, y, z]) transformed_contour)
        in (case format_contours transformation_matrix i rest of
              Inl e \<Rightarrow> Inl e
            | Inr formatted_contours \<Rightarrow> Inr (dicom_formatted_contour # formatted_contours)))"

text \<open>The body of the loop of \<^verbatim>\<open>get_contours_coords\<close> for the slice of index \<open>i\<close>.\<close>

definition slice_contours ::
    "tracer \<Rightarrow> line_routine \<Rightarrow> ROIData \<Rightarrow> mat4 \<Rightarrow> nat \<Rightarrow> store
       \<Rightarrow> ((error + real list list) \<times> store) option" where
  "slice_contours find_contours line_aa roi_data transformation_matrix i h =
     (case take_plane h (roi_mask roi_data) i of
        Inl e \<Rightarrow> Some (Inl e, h)
      | Inr mask_slice \<Rightarrow>
          (case np_sum h mask_slice of
             Inl e \<Rightarrow> Some (Inl e, h)
           | Inr mask_sum \<Rightarrow>
               if mask_sum = 0 then Some (Inr [], h)
               else
                 (case (if use_pin_hole roi_data
                        then create_pin_hole_mask find_contours line_aa mask_slice
                               (approximate_contours roi_data) h
                        else Some (Inr mask_slice, h)) of
                    None \<Rightarrow> None
                  | Some (Inl e, h1) \<Rightarrow> Some (Inl e, h1)
                  | Some (Inr mask_slice, h1) \<Rightarrow>
                      (case find_mask_contours find_contours mask_slice
                              (approximate_contours roi_data) h1 of
                         Inl e \<Rightarrow> Some (Inl e, h1)
                       | Inr contours \<Rightarrow>
                           let contours = map (map (\<lambda>(x0, x1). (x1, x0))) contours
                           in (case validate_contours contours of
                                 Inl e \<Rightarrow> Some (Inl e, h1)
                               | Inr _ \<Rightarrow>
                                   (case format_contours transformation_matrix i contours of
                                      Inl e \<Rightarrow> Some (Inl e, h1)
                                    | Inr formatted_contours \<Rightarrow>
                                        Some (Inr formatted_contours, h1)))))))"

fun contours_loop ::
    "tracer \<Rightarrow> line_routine \<Rightarrow> ROIData \<Rightarrow> mat4 \<Rightarrow> nat \<Rightarrow> Dataset list \<Rightarrow> real list list list
       \<Rightarrow> store \<Rightarrow> ((error + real list list list) \<times> store) option" where
  "contours_loop find_contours line_aa roi_data transformation_matrix i [] series_contours h =
     Some (Inr series_contours, h)"
| "contours_loop find_contours line_aa roi_data transformation_matrix i (series_slice # rest)
       series_contours h =
     (case slice_contours find_contours line_aa roi_data transformation_matrix i h of
        None \<Rightarrow> None
      | Some (Inl e, h1) \<Rightarrow> Some (Inl e, h1)
      | Some (Inr formatted_contours, h1) \<Rightarrow>
          contours_loop find_contours line_aa roi_data transformation_matrix (Suc i) rest
            (series_contours @ [formatted_contours]) h1)"

definition get_contours_coords ::
    "(real \<Rightarrow> real) \<Rightarrow> tracer \<Rightarrow> line_routine \<Rightarrow> ROIData \<Rightarrow> Dataset list \<Rightarrow> store
       \<Rightarrow> ((error + real list list list) \<times> store) option" where
  "get_contours_coords f32 find_contours line_aa roi_data series_data h =
     (case get_pixel_to_patient_transformation_matrix f32 series_data of
        Inl e \<Rightarrow> Some (Inl e, h)
      | Inr transformation_matrix \<Rightarrow>
          contours_loop find_contours line_aa roi_data transformation_matrix 0 series_data
            [] h)"

section \<open>Sample inputs\<close>


definition stretched_slice :: Dataset where
  "stretched_slice = \<lparr>SOPInstanceUID = ''1.2.840.2'', Rows = 4, Columns = 4,
     PixelSpacing = (1, 1), ImagePositionPatient = (0, 0, 0),
     ImageOrientationPatient = (1, 0, 0, 0, 1001005 / 1000000, 0)\<rparr>"

definition diagonal_slice :: Dataset where
  "diagonal_slice = \<lparr>SOPInstanceUID = ''1.2.840.3'', Rows = 4, Columns = 4,
     PixelSpacing = (1, 1), ImagePositionPatient = (0, 0, 0),
     ImageOrientationPatient = (1, 0, 0, 1, 1, 0)\<rparr>"


text \<open>
  A slice of 5 by 5 pixels of size 1 with the identity orientation, and two square
  contours on the slice \<open>''1.2.840.10''\<close>. \<open>box_fill\<close> is a fill routine to evaluate
  with: it sets the pixels of the smallest axis-parallel rectangle that holds all vertices,
  and raises for a polygon without vertices.
\<close>

definition pixel_slice :: "string \<Rightarrow> real \<Rightarrow> Dataset" where
  "pixel_slice uid z = \<lparr>SOPInstanceUID = uid, Rows = 5, Columns = 5,
     PixelSpacing = (1, 1), ImagePositionPatient = (0, 0, z),
     ImageOrientationPatient = (1, 0, 0, 0, 1, 0)\<rparr>"

definition contour_a :: Contour where
  "contour_a = \<lparr>ContourImageSequence = [''1.2.840.10''],
     ContourData = [0, 0, 0, 0, 1, 0, 1, 1, 0, 1, 0, 0]\<rparr>"

definition contour_b :: Contour where
  "contour_b = \<lparr>ContourImageSequence = [''1.2.840.10''],
     ContourData = [2, 2, 0, 2, 3, 0, 3, 3, 0, 3, 2, 0]\<rparr>"

definition box_fill :: fill_routine where
  "box_fill image_shape polygon =
     (case polygon of
        Coordinates v \<Rightarrow> Inr (\<lambda>a b. v = (int a, int b))
      | Vertices [] \<Rightarrow> Inl ValueError
      | Vertices vs \<Rightarrow>
          Inr (\<lambda>a b. list_ex (\<lambda>v. fst v \<le> int a) vs \<and> list_ex (\<lambda>v. int a \<le> fst v) vs
                   \<and> list_ex (\<lambda>v. snd v \<le> int b) vs \<and> list_ex (\<lambda>v. int b \<le> snd v) vs))"

text \<open>
  A mask of 5 by 5 pixels and three slices: slice 0 is all false, slice 1 holds a
  square of 3 by 3 pixels with a hole in its centre, slice 2 is all true.
  \<open>ring_tracer\<close> is a tracer to evaluate with. For the square with the hole it returns
  the outer and the inner boundary as a tracer at level 0.5 places them, half a pixel
  off the cells; for any other mask it returns no contour, which is what a tracer finds
  in a mask of one value. \<open>row_line\<close> is a line routine to evaluate with: the pixels
  of a line within one row, both end points included.
\<close>

definition ring_volume :: ndarray3 where
  "ring_volume = \<lparr>shape3 = (5, 5, 3), cells =
     map (\<lambda>a. map (\<lambda>b. [False, a \<in> {1, 2, 3} \<and> b \<in> {1, 2, 3} \<and> (a, b) \<noteq> (2, 2), True])
            [0..<5]) [0..<5]\<rparr>"

definition ring_tracer :: tracer where
  "ring_tracer g =
     (if g = plane ring_volume 1 then
        Inr [[(1 / 2, 1), (1 / 2, 2), (1 / 2, 3), (1, 7 / 2), (2, 7 / 2), (3, 7 / 2),
              (7 / 2, 3), (7 / 2, 2), (7 / 2, 1), (3, 1 / 2), (2, 1 / 2), (1, 1 / 2),
              (1 / 2, 1)],
             [(2, 3 / 2), (3 / 2, 2), (2, 5 / 2), (5 / 2, 2), (2, 3 / 2)]]
      else Inr [])"

definition row_line :: line_routine where
  "row_line r0 c0 r1 c1 = map (\<lambda>c. (r0, c)) (if c1 \<le> c0 then rev [c1..c0] else [c0..c1])"

definition ring_roi :: "bool \<Rightarrow> ROIData" where
  "ring_roi pin_hole = \<lparr>roi_mask = 0, use_pin_hole = pin_hole, approximate_contours = True\<rparr>"

section \<open>Properties of the geometry resolver\<close>





lemma linalg_norm_z: "linalg_norm (0, 0, z) = \<bar>z\<bar>"
  by (simp add: linalg_norm_def dot_def)





text \<open>
  Claim C4, as the code has it. \<^verbatim>\<open>get_slice_directions\<close> raises the invalid-geometry
  exception exactly when the dot product of the row and column directions is further
  than \<open>1e-3\<close> from 0, or the norm of their cross product is further than
  \<open>1e-3 + 1e-5\<close> from 1 (the absolute tolerance plus numpy's default relative tolerance
  times the reference value 1); otherwise it returns the row direction, the column
  direction and their cross product.
\<close>

theorem get_slice_directions_tolerance:
  assumes "ImageOrientationPatient s = (r0, r1, r2, c0, c1, c2)"
  shows "(get_slice_directions s = Inl InvalidGeometry \<longleftrightarrow>
            \<bar>dot (r0, r1, r2) (c0, c1, c2)\<bar> > 1 / 1000
          \<or> \<bar>linalg_norm (cross (r0, r1, r2) (c0, c1, c2)) - 1\<bar> > 1 / 1000 + 1 / 100000)
       \<and> (get_slice_directions s \<noteq> Inl InvalidGeometry \<longrightarrow>
            get_slice_directions s =
              Inr ((r0, r1, r2), (c0, c1, c2), cross (r0, r1, r2) (c0, c1, c2)))"
  using assms by (auto simp: get_slice_directions_def allclose_def Let_def)

theorem get_slice_directions_tolerance_witness:
  "get_slice_directions diagonal_slice = Inl InvalidGeometry
   \<and> get_slice_directions stretched_slice
       = Inr ((1, 0, 0), (0, 1001005 / 1000000, 0), (0, 0, 1001005 / 1000000))"
  using get_slice_directions_tolerance [of diagonal_slice 1 0 0 1 1 0]
    get_slice_directions_tolerance [of stretched_slice 1 0 0 0 "1001005 / 1000000" 0]
  by (simp add: diagonal_slice_def stretched_slice_def dot_def cross_def linalg_norm_z)

text \<open>
  With a tolerance of exactly \<open>1e-3\<close> on the norm the statement fails: the orientation
  \<open>(1, 0, 0), (0, 1.001005, 0)\<close> has a normal of length 1.001005, which is further than
  \<open>1e-3\<close> from 1, and is accepted.
\<close>

theorem get_slice_directions_counterexample:
  "\<bar>linalg_norm (cross (1, 0, 0) (0, 1001005 / 1000000, 0)) - 1\<bar> > 1 / 1000
   \<and> get_slice_directions stretched_slice \<noteq> Inl InvalidGeometry"
  by (simp add: get_slice_directions_def stretched_slice_def allclose_def Let_def cross_def
      linalg_norm_z dot_def)




section \<open>Properties of the transform builder\<close>

lemma np_around_nearest:
  assumes "real_of_int n - 1 / 2 < x" "x < real_of_int n + 1 / 2"
  shows "np_around x = n"
proof -
  consider "\<lfloor>x\<rfloor> = n" | "\<lfloor>x\<rfloor> = n - 1"
    using assms by linarith
  then show ?thesis
  proof cases
    case 1
    then show ?thesis using assms by (simp add: np_around_def Let_def)
  next
    case 2
    then show ?thesis using assms by (simp add: np_around_def Let_def)
  qed
qed

lemma np_around_error: "\<bar>real_of_int (np_around y) - y\<bar> \<le> 1 / 2"
proof -
  have "real_of_int \<lfloor>y\<rfloor> \<le> y" "y < real_of_int \<lfloor>y\<rfloor> + 1" by linarith+
  then show ?thesis by (auto simp: np_around_def Let_def)
qed







text \<open>Below the smallest subnormal number: flushed to zero.\<close>

lemma float32_underflow:
  assumes "0 < x" "x < 2 powi (- 150)"
  shows "float32 x = 0"
proof -
  have small: "x < 2 powi (- 126)"
    using assms(2) by (simp add: power_int_def power_divide)
  have "\<lfloor>log 2 x\<rfloor> < - 126"
  proof -
    have "(2::real) powr (real_of_int (- 126)) = 2 powi (- 126)"
      by (rule powr_real_of_int'; simp)
    then have "x < 2 powr (real_of_int (- 126))" using small by presburger
    then have "log 2 x < real_of_int (- 126)"
      using assms(1) by (simp add: log_less_iff)
    then show ?thesis by linarith
  qed
  then have e: "max \<lfloor>log 2 \<bar>x\<bar>\<rfloor> (- 126) - 23 = - 149"
    using assms(1) by simp
  have "x / 2 powi (- 149) < 1 / 2"
    using assms(2) by (simp add: power_int_def power_divide field_simps)
  moreover have "0 < x / 2 powi (- 149)" using assms(1) by (simp add: power_int_def)
  ultimately have z: "np_around (x / 2 powi (- 149)) = 0"
    by (intro np_around_nearest) simp_all
  have "float32 x = of_int (np_around (x / 2 powi (- 149))) * 2 powi (- 149)"
    using assms(1) unfolding float32_def Let_def e by simp
  then show ?thesis unfolding z by simp
qed

lemma float32_accurate:
  assumes "normal32 x"
  shows "\<bar>float32 x - x\<bar> \<le> \<bar>x\<bar> / 2 ^ 24"
proof (cases "x = 0")
  case True
  then show ?thesis by (simp add: float32_def)
next
  case False
  define e where "e = \<lfloor>log 2 \<bar>x\<bar>\<rfloor>"
  have pos: "0 < \<bar>x\<bar>" using False by simp
  have low: "2 powi (- 126) \<le> \<bar>x\<bar>" using assms False by (simp add: normal32_def)
  have p: "(2::real) powr (real_of_int k) = 2 powi k" for k
    by (rule powr_real_of_int'; simp)
  have b: "2 powi e \<le> \<bar>x\<bar>" "\<bar>x\<bar> < 2 powi (e + 1)"
    using floor_log_eq_powr_iff [of "\<bar>x\<bar>" 2 e] pos p [of e] p [of "e + 1"]
    unfolding e_def by (simp_all add: add.commute)
  have "(2::real) powi (- 126) < 2 powi (e + 1)" using low b(2) by linarith
  then have "- 126 < e + 1"
    using power_int_increasing [of "e + 1" "- 126" "2::real"] by force
  then have e: "max e (- 126) = e" by simp
  define u :: real where "u = 2 powi (e - 23)"
  have u: "0 < u" by (simp add: u_def)
  have f: "float32 x = of_int (np_around (x / u)) * u"
    using False e by (simp add: float32_def Let_def e_def [symmetric] u_def)
  have "float32 x - x = (of_int (np_around (x / u)) - x / u) * u"
    using u by (simp add: f field_simps)
  then have "\<bar>float32 x - x\<bar> = \<bar>of_int (np_around (x / u)) - x / u\<bar> * u"
    using u by (simp add: abs_mult)
  also have "\<dots> \<le> (1 / 2) * u"
    using np_around_error [of "x / u"] u by (intro mult_right_mono) simp_all
  also have "\<dots> = 2 powi e / 2 ^ 24"
    by (simp add: u_def power_int_diff)
  also have "\<dots> \<le> \<bar>x\<bar> / 2 ^ 24"
    using b(1) by (simp add: divide_right_mono)
  finally show ?thesis .
qed









section \<open>Properties of the mask rasterizer\<close>

lemma polygon_loop_append:
  "polygon_loop M (xs @ ys) ps p =
     (case polygon_loop M xs ps p of Inl e \<Rightarrow> Inl e | Inr (ps', p') \<Rightarrow> polygon_loop M ys ps' p')"
  by (induction xs arbitrary: ps p) (auto simp: Let_def split: sum.splits)

lemma polygon_loop_total:
  assumes "\<forall>c \<in> set xs. length c mod 3 = 0"
  shows "\<exists>ps' p'. polygon_loop M xs ps p = Inr (ps', p')"
  using assms by (induction xs arbitrary: ps p) (auto simp: Let_def np_reshape_def)

lemma polygon_loop_single:
  "polygon_loop M [c] ps p =
     (case np_reshape c of
        Inl e \<Rightarrow> Inl e
      | Inr pts \<Rightarrow>
          Inr (ps @ [squeeze (map (\<lambda>(x, y, z). (np_around x, np_around y))
                        (apply_transformation_to_3d_points pts M))],
               Some (squeeze (map (\<lambda>(x, y, z). (np_around x, np_around y))
                        (apply_transformation_to_3d_points pts M)))))"
  by (simp add: Let_def split: sum.splits)

text \<open>
  Claim C1 asks for the union of the filled polygons of all contours of a slice. The
  code collects the polygons in \<^verbatim>\<open>polygons\<close> and then fills \<^verbatim>\<open>polygon\<close>, the variable
  of the loop, which holds the last contour only: whatever the fill routine, the mask of
  a slice with several well-formed contours is the mask of its last contour alone.
\<close>

theorem get_slice_mask_uses_last_contour_only:
  assumes "\<forall>c \<in> set earlier. length c mod 3 = 0"
  shows "get_slice_mask_from_slice_contour_data polygon2mask series_slice
           (earlier @ [contour_coords]) transformation_matrix image_shape
         = get_slice_mask_from_slice_contour_data polygon2mask series_slice
           [contour_coords] transformation_matrix image_shape"
proof -
  obtain ps' p' where "polygon_loop transformation_matrix earlier [] None = Inr (ps', p')"
    using polygon_loop_total [OF assms] by blast
  then show ?thesis
    unfolding get_slice_mask_from_slice_contour_data_def polygon_loop_append polygon_loop_single
    by (simp split: sum.splits)
qed

text \<open>
  Two disjoint squares on one slice: the returned mask holds the second square only,
  the union holds both.
\<close>

theorem get_slice_mask_uses_last_contour_only_witness:
  "get_slice_mask_from_slice_contour_data box_fill (pixel_slice ''1.2.840.10'' 0)
     ([ContourData contour_a] @ [ContourData contour_b]) identity4 (5, 5)
     = Inr [[False, False, False, False, False], [False, False, False, False, False],
            [False, False, True, True, False], [False, False, True, True, False],
            [False, False, False, False, False]]
   \<and> union_of_filled_polygons box_fill
       ([ContourData contour_a] @ [ContourData contour_b]) identity4 (5, 5)
     = Inr [[True, True, False, False, False], [True, True, False, False, False],
            [False, False, True, True, False], [False, False, True, True, False],
            [False, False, False, False, False]]"
proof -
  have earlier: "\<forall>c \<in> set [ContourData contour_a]. length c mod 3 = 0"
    by (simp add: contour_a_def)
  have single: "get_slice_mask_from_slice_contour_data box_fill (pixel_slice ''1.2.840.10'' 0)
     [ContourData contour_b] identity4 (5, 5)
     = Inr [[False, False, False, False, False], [False, False, False, False, False],
            [False, False, True, True, False], [False, False, True, True, False],
            [False, False, False, False, False]]"
    by code_simp
  have union: "union_of_filled_polygons box_fill
       ([ContourData contour_a] @ [ContourData contour_b]) identity4 (5, 5)
     = Inr [[True, True, False, False, False], [True, True, False, False, False],
            [False, False, True, True, False], [False, False, True, True, False],
            [False, False, False, False, False]]"
    by code_simp
  show ?thesis
    using get_slice_mask_uses_last_contour_only [OF earlier, of box_fill
        "pixel_slice ''1.2.840.10'' 0" "ContourData contour_b" identity4 "(5, 5)"]
      single union
    by simp
qed

section \<open>Properties of the contours-to-mask conversion\<close>

lemma plane_assign_plane:
  assumes "assign_plane m i sm = Inr m'" "k \<noteq> i"
  shows "plane m' k = plane m k" and "shape3 m' = shape3 m"
proof -
  from assms(1) have m': "m' = m\<lparr>cells :=
            map (\<lambda>(a, row). map (\<lambda>(b, ks). ks[i := sm ! a ! b]) (enumerate 0 row))
              (enumerate 0 (cells m))\<rparr>"
    by (auto simp: assign_plane_def split: prod.splits if_splits)
  have inner: "map ((\<lambda>ks. ks ! k) \<circ> (\<lambda>(b, ks). ks[i := f b])) (enumerate n row)
                 = map (\<lambda>ks. ks ! k) row" for f n and row :: "bool list list"
    using assms(2) by (induction row arbitrary: n) auto
  have outer: "map (map (\<lambda>ks. ks ! k) \<circ> (\<lambda>(a, row). map (\<lambda>(b, ks). ks[i := g a b]) (enumerate 0 row)))
                 (enumerate n cs) = map (map (\<lambda>ks. ks ! k)) cs"
    for g n and cs :: "bool list list list"
    by (induction cs arbitrary: n) (auto simp: inner)
  show "plane m' k = plane m k"
    unfolding plane_def m' by (simp add: outer)
  show "shape3 m' = shape3 m" by (simp add: m')
qed

lemma create_series_mask_loop_frame:
  assumes "create_series_mask_loop p2m cs M shp i ss m = Inr m'"
  shows "shape3 m' = shape3 m
       \<and> (\<forall>k. (k < i \<or> i + length ss \<le> k \<or> get_slice_contour_data (ss ! (k - i)) cs = [])
              \<longrightarrow> plane m' k = plane m k)"
  using assms
proof (induction ss arbitrary: i m)
  case Nil
  then show ?case by simp
next
  case (Cons s ss)
  show ?case
  proof (cases "get_slice_contour_data s cs = []")
    case True
    with Cons.prems have "create_series_mask_loop p2m cs M shp (Suc i) ss m = Inr m'"
      by simp
    from Cons.IH [OF this] show ?thesis
      by (auto simp: nth_Cons' Suc_diff_Suc split: if_splits)
  next
    case False
    with Cons.prems obtain sm m1 where
      a: "assign_plane m i sm = Inr m1"
      and l: "create_series_mask_loop p2m cs M shp (Suc i) ss m1 = Inr m'"
      by (auto simp: Let_def split: sum.splits)
    have sh: "shape3 m' = shape3 m"
      using Cons.IH [OF l] plane_assign_plane(2) [OF a, of "Suc i"] by simp
    have "plane m' k = plane m k"
      if k: "k < i \<or> i + length (s # ss) \<le> k
             \<or> get_slice_contour_data ((s # ss) ! (k - i)) cs = []" for k
    proof -
      have ki: "k \<noteq> i" using k False by auto
      have "k < Suc i \<or> Suc i + length ss \<le> k
            \<or> get_slice_contour_data (ss ! (k - Suc i)) cs = []"
        using k ki False by (cases "k < i") (auto simp: nth_Cons' split: if_splits)
      then have "plane m' k = plane m1 k" using Cons.IH [OF l] by blast
      also have "\<dots> = plane m k" using plane_assign_plane(1) [OF a ki] .
      finally show ?thesis .
    qed
    with sh show ?thesis by blast
  qed
qed

lemma plane_zeros3:
  "k < d2 \<Longrightarrow> plane (zeros3 (d0, d1, d2)) k = replicate d0 (replicate d1 False)"
  by (simp add: plane_def zeros3_def)

lemma get_slice_contour_data_empty:
  "get_slice_contour_data series_slice contour_sequence = [] \<longleftrightarrow>
     (\<forall>contour \<in> set contour_sequence.
        SOPInstanceUID series_slice \<notin> set (ContourImageSequence contour))"
  by (induction contour_sequence)
     (auto simp: get_slice_contour_data_def filter_empty_conv)

lemma pixel_slice_directions:
  "get_slice_directions (pixel_slice uid z) = Inr ((1, 0, 0), (0, 1, 0), (0, 0, 1))"
  by (simp add: get_slice_directions_def pixel_slice_def Let_def allclose_def cross_def
      dot_def linalg_norm_def)

lemma two_slices_matrix:
  "get_patient_to_pixel_transformation_matrix (\<lambda>x. x)
     [pixel_slice ''1.2.840.10'' 0, pixel_slice ''1.2.840.11'' 1] = Inr identity4"
  by (simp add: get_patient_to_pixel_transformation_matrix_def get_spacing_between_slices_def
      get_slice_position_def pixel_slice_directions Let_def narrow3_def divide_scalar_def
      negate3_def assign_column_def put_def identity4_def dot_def)
     (simp add: pixel_slice_def dot_def)

lemma two_slices_loop:
  "create_series_mask_loop box_fill [contour_a, contour_b] identity4 (5, 5) 0
     [pixel_slice ''1.2.840.10'' 0, pixel_slice ''1.2.840.11'' 1] (zeros3 (5, 5, 2))
   = Inr \<lparr>shape3 = (5, 5, 2), cells =
       [[[False, False], [False, False], [False, False], [False, False], [False, False]],
        [[False, False], [False, False], [False, False], [False, False], [False, False]],
        [[False, False], [False, False], [True, False], [True, False], [False, False]],
        [[False, False], [False, False], [True, False], [True, False], [False, False]],
        [[False, False], [False, False], [False, False], [False, False], [False, False]]]\<rparr>"
  by code_simp

text \<open>
  Claim C8. When \<^verbatim>\<open>create_series_mask_from_contour_sequence\<close> returns a mask, the series
  is not empty, the mask it allocated is the all-false array of shape (Columns, Rows,
  number of slices) of the first slice, the returned mask has that shape, and the plane
  of every slice that no contour references is all false.
\<close>

theorem create_series_mask_unreferenced_planes:
  assumes "create_series_mask_from_contour_sequence f32 polygon2mask series_data
             contour_sequence = Inr series_mask"
  shows "\<exists>ref_dicom_image rest. series_data = ref_dicom_image # rest
     \<and> create_empty_series_mask series_data
         = Inr (zeros3 (Columns ref_dicom_image, Rows ref_dicom_image, length series_data))
     \<and> shape3 series_mask = (Columns ref_dicom_image, Rows ref_dicom_image, length series_data)
     \<and> (\<forall>i < length series_data.
           (\<forall>contour \<in> set contour_sequence.
              SOPInstanceUID (series_data ! i) \<notin> set (ContourImageSequence contour)) \<longrightarrow>
           plane series_mask i
             = replicate (Columns ref_dicom_image) (replicate (Rows ref_dicom_image) False))"
proof -
  from assms obtain ref rest where series: "series_data = ref # rest"
    by (cases series_data)
       (auto simp: create_series_mask_from_contour_sequence_def create_empty_series_mask_def)
  let ?dims = "(Columns ref, Rows ref, length series_data)"
  have empty: "create_empty_series_mask series_data = Inr (zeros3 ?dims)"
    by (simp add: create_empty_series_mask_def series)
  from assms obtain M where
    loop: "create_series_mask_loop polygon2mask contour_sequence M (Columns ref, Rows ref) 0
             series_data (zeros3 ?dims) = Inr series_mask"
    by (auto simp: create_series_mask_from_contour_sequence_def empty zeros3_def
        split: sum.splits)
  note frame = create_series_mask_loop_frame [OF loop]
  have "shape3 series_mask = ?dims" using frame by (simp add: zeros3_def)
  moreover have "plane series_mask i = replicate (Columns ref) (replicate (Rows ref) False)"
    if "i < length series_data"
      "\<forall>contour \<in> set contour_sequence.
         SOPInstanceUID (series_data ! i) \<notin> set (ContourImageSequence contour)" for i
  proof -
    have "get_slice_contour_data (series_data ! i) contour_sequence = []"
      using that(2) by (simp only: get_slice_contour_data_empty)
    then have "plane series_mask i = plane (zeros3 ?dims) i" using frame that(1) by simp
    then show ?thesis using that(1) by (simp add: plane_zeros3)
  qed
  ultimately show ?thesis using series empty by blast
qed

theorem create_series_mask_unreferenced_planes_witness:
  "create_series_mask_from_contour_sequence (\<lambda>x. x) box_fill
     [pixel_slice ''1.2.840.10'' 0, pixel_slice ''1.2.840.11'' 1] [contour_a, contour_b]
   = Inr \<lparr>shape3 = (5, 5, 2), cells =
       [[[False, False], [False, False], [False, False], [False, False], [False, False]],
        [[False, False], [False, False], [False, False], [False, False], [False, False]],
        [[False, False], [False, False], [True, False], [True, False], [False, False]],
        [[False, False], [False, False], [True, False], [True, False], [False, False]],
        [[False, False], [False, False], [False, False], [False, False], [False, False]]]\<rparr>
   \<and> ''1.2.840.11'' \<notin> set (ContourImageSequence contour_a)
   \<and> ''1.2.840.11'' \<notin> set (ContourImageSequence contour_b)
   \<and> plane \<lparr>shape3 = (5, 5, 2), cells =
       [[[False, False], [False, False], [False, False], [False, False], [False, False]],
        [[False, False], [False, False], [False, False], [False, False], [False, False]],
        [[False, False], [False, False], [True, False], [True, False], [False, False]],
        [[False, False], [False, False], [True, False], [True, False], [False, False]],
        [[False, False], [False, False], [False, False], [False, False], [False, False]]]\<rparr> 1
     = replicate 5 (replicate 5 False)"
proof -
  have run: "create_series_mask_from_contour_sequence (\<lambda>x. x) box_fill
     [pixel_slice ''1.2.840.10'' 0, pixel_slice ''1.2.840.11'' 1] [contour_a, contour_b]
   = Inr \<lparr>shape3 = (5, 5, 2), cells =
       [[[False, False], [False, False], [False, False], [False, False], [False, False]],
        [[False, False], [False, False], [False, False], [False, False], [False, False]],
        [[False, False], [False, False], [True, False], [True, False], [False, False]],
        [[False, False], [False, False], [True, False], [True, False], [False, False]],
        [[False, False], [False, False], [False, False], [False, False], [False, False]]]\<rparr>"
  proof -
    have empty: "create_empty_series_mask
        [pixel_slice ''1.2.840.10'' 0, pixel_slice ''1.2.840.11'' 1] = Inr (zeros3 (5, 5, 2))"
      by (simp add: create_empty_series_mask_def pixel_slice_def numeral_2_eq_2)
    have shape: "shape3 (zeros3 (5, 5, 2)) = (5, 5, 2)"
      by (simp add: zeros3_def)
    show ?thesis
      unfolding create_series_mask_from_contour_sequence_def empty two_slices_matrix
      by (simp only: sum.case Let_def shape prod.case two_slices_loop)
  qed
  have none: "''1.2.840.11'' \<notin> set (ContourImageSequence contour_a)"
    "''1.2.840.11'' \<notin> set (ContourImageSequence contour_b)"
    by (simp_all add: contour_a_def contour_b_def)
  show ?thesis
    using create_series_mask_unreferenced_planes [OF run] run none
    by (auto simp: pixel_slice_def)
qed

section \<open>Properties of the store and of the line drawing\<close>

lemma py_index_less: "py_index n i = Some k \<Longrightarrow> k < n"
  by (auto simp: py_index_def split: if_splits)

lemma py_index_lower: "py_index n i = Some k \<Longrightarrow> - int n \<le> i"
  by (auto simp: py_index_def split: if_splits)

lemma write_pixels_shape:
  "write_pixels g pixels v = Inr g' \<Longrightarrow> map length g' = map length g"
proof (induction pixels arbitrary: g)
  case Nil
  then show ?case by simp
next
  case (Cons p pixels)
  obtain r c where p: "p = (r, c)" by (cases p)
  from Cons.prems p obtain r' c' where
    r': "py_index (length g) r = Some r'" and c': "py_index (length (g ! r')) c = Some c'"
    and rest: "write_pixels (g[r' := (g ! r')[c' := v]]) pixels v = Inr g'"
    by (auto split: option.splits)
  have "map length (g[r' := (g ! r')[c' := v]]) = map length g"
    using py_index_less [OF r'] by (simp add: map_update list_update_same_conv)
  with Cons.IH [OF rest] show ?case by simp
qed

lemma setitems_effect:
  assumes "setitems h a pixels fv = Inr h1"
  shows "length h1 = length h" and "\<And>b. b \<noteq> a \<Longrightarrow> h1 ! b = h ! b"
    and "row_width h1 a r = row_width h a r"
proof -
  from assms obtain g g' where g: "lookup h a = Some (Bytes g)"
    and w: "write_pixels g pixels (word_of_int fv) = Inr g'"
    and h1: "h1 = h[a := Bytes g']"
    by (auto simp: setitems_def split: option.splits ndarray.splits sum.splits)
  show "length h1 = length h" by (simp add: h1)
  show "h1 ! b = h ! b" if "b \<noteq> a" for b using that by (simp add: h1)
  have a: "a < length h" using g by (simp add: lookup_def split: if_splits)
  have lens: "map length g' = map length g" by (rule write_pixels_shape [OF w])
  then have len: "length g' = length g" by (metis length_map)
  have "length (g' ! k) = length (g ! k)" if "k < length g" for k
    using lens that len by (metis nth_map)
  then show "row_width h1 a r = row_width h a r"
    using g a len
    by (auto simp: row_width_def lookup_def h1 split: option.splits dest: py_index_less)
qed

lemma getitem_bound:
  assumes "getitem h a (r, e) = Inr v"
  shows "- int (row_width h a r) \<le> e"
  using assms
  by (auto simp: getitem_def row_width_def split: option.splits ndarray.splits
      dest: py_index_lower)

text \<open>
  The loop of the line drawing ends on every input. Each iteration moves the column of
  the point it reads two to the left, and an index below minus the row length is out of
  range for \<^verbatim>\<open>mask[end]\<close>. The loop writes into the array at its address only.
\<close>

lemma draw_line_loop_runs:
  "\<exists>res h'. draw_line_loop line_aa a s (r, e) fv h = Some (res, h')
      \<and> length h' = length h \<and> (\<forall>b. b \<noteq> a \<longrightarrow> h' ! b = h ! b)"
proof (induction "nat (e + int (row_width h a r) + 1)" arbitrary: s e h rule: less_induct)
  case less
  show ?case
  proof (cases "getitem h a (r, e)")
    case (Inl err)
    then show ?thesis by (subst draw_line_loop.simps) simp
  next
    case (Inr v)
    note v = this
    show ?thesis
    proof (cases "uint v \<noteq> fv")
      case False
      with v show ?thesis by (subst draw_line_loop.simps) simp
    next
      case True
      show ?thesis
      proof (cases "setitems h a (line_aa (fst s) (snd s) r e) fv")
        case (Inl err)
        with v True show ?thesis by (subst draw_line_loop.simps) simp
      next
        case (Inr h1)
        note eff = setitems_effect [OF Inr]
        have "nat (e - 2 + int (row_width h1 a r) + 1) < nat (e + int (row_width h a r) + 1)"
          using getitem_bound [OF v] eff(3) [of r] by simp
        from less [OF this, of "(r, e)"] obtain res h' where
          run: "draw_line_loop line_aa a (r, e) (r, e - 2) fv h1 = Some (res, h')"
          and len: "length h' = length h1" and same: "\<forall>b. b \<noteq> a \<longrightarrow> h' ! b = h1 ! b"
          by blast
        have "draw_line_loop line_aa a s (r, e) fv h = Some (res, h')"
          using v True Inr run by (subst draw_line_loop.simps) simp
        then show ?thesis using len same eff(1,2) by simp
      qed
    qed
  qed
qed

lemma prefix_by_nth:
  assumes "length xs \<le> length ys" and "\<And>i. i < length xs \<Longrightarrow> ys ! i = xs ! i"
  shows "prefix xs ys"
proof -
  have "take (length xs) ys = xs"
    using assms by (intro nth_equalityI) simp_all
  then show ?thesis by (metis take_is_prefix)
qed

lemma prefix_lookup:
  "prefix h h' \<Longrightarrow> lookup h a = Some v \<Longrightarrow> lookup h' a = Some v"
  by (auto simp: lookup_def prefix_def nth_append split: if_splits)

lemma astype_uint8_cases:
  "astype_uint8 m h = (Inl TypeError, h) \<and> bool_value h m = None
   \<or> (\<exists>g. bool_value h m = Some g
        \<and> astype_uint8 m h
            = (Inr (length h), h @ [Bytes (map (map (\<lambda>b. if b then 1 else 0)) g)]))"
  by (auto simp: astype_uint8_def alloc_def split: option.splits)

lemma astype_bool_prefix: "astype_bool a h = (res, h') \<Longrightarrow> prefix h h'"
  by (auto simp: astype_bool_def alloc_def split: option.splits ndarray.splits)

lemma draw_line_upwards_from_point_runs:
  "\<exists>res h'. draw_line_upwards_from_point line_aa m start fv h = Some (res, h') \<and> prefix h h'"
proof -
  consider (bad) "astype_uint8 m h = (Inl TypeError, h)"
    | (ok) v where "astype_uint8 m h = (Inr (length h), h @ [v])"
    using astype_uint8_cases [of m h] by blast
  then show ?thesis
  proof cases
    case bad
    then show ?thesis by (simp add: draw_line_upwards_from_point_def)
  next
    case ok
    obtain x y where start: "start = (x, y)" by (cases start)
    show ?thesis
    proof (cases "\<exists>r c. x = PyInt r \<and> y = PyInt c")
      case False
      then have "draw_line_upwards_from_point line_aa m start fv h
                   = Some (Inl IndexError, h @ [v])"
        by (cases x; cases y) (simp_all add: draw_line_upwards_from_point_def ok start)
      then show ?thesis by simp
    next
      case True
      then obtain r c where xy: "x = PyInt r" "y = PyInt c" by blast
      obtain res h2 where
        run: "draw_line_loop line_aa (length h) (r, c) (r, c - 1) fv (h @ [v]) = Some (res, h2)"
        and len: "length h2 = length (h @ [v])"
        and same: "\<forall>b. b \<noteq> length h \<longrightarrow> h2 ! b = (h @ [v]) ! b"
        using draw_line_loop_runs [of line_aa "length h" "(r, c)" r "c - 1" fv "h @ [v]"]
        by blast
      have p2: "prefix h h2"
        using len same by (intro prefix_by_nth) (simp_all add: nth_append)
      show ?thesis
      proof (cases res)
        case (Inl err)
        then show ?thesis
          using run p2 by (simp add: draw_line_upwards_from_point_def ok start xy)
      next
        case (Inr u)
        obtain res3 h3 where a: "astype_bool (length h) h2 = (res3, h3)"
          by (cases "astype_bool (length h) h2")
        have "prefix h h3" using astype_bool_prefix [OF a] p2 by (rule prefix_order.trans [rotated])
        then show ?thesis
          using run Inr a by (simp add: draw_line_upwards_from_point_def ok start xy)
      qed
    qed
  qed
qed

text \<open>
  Claim C7. For a mask and a start point inside it such that a pixel of the start's row
  at a smaller column holds the background value 0, the call of
  \<^verbatim>\<open>draw_line_upwards_from_point\<close> with fill value 0 ends: it has a result, a mask or an
  exception. (The proof does not need the background pixel: the loop also ends when the
  column index leaves the array.)
\<close>

theorem draw_line_upwards_from_point_terminates:
  assumes "bool_value h mask_ref = Some g"
    and "0 \<le> r" "nat r < length g" "0 \<le> c" "nat c < length (g ! nat r)"
    and "\<exists>c' < nat c. \<not> g ! nat r ! c'"
  shows "\<exists>res h'.
           draw_line_upwards_from_point line_aa mask_ref (PyInt r, PyInt c) 0 h = Some (res, h')"
  using draw_line_upwards_from_point_runs by blast

theorem draw_line_upwards_from_point_terminates_witness:
  "bool_value [Grid [[False, True, True, True]]] (Whole 0) = Some [[False, True, True, True]]
   \<and> (\<exists>res h'. draw_line_upwards_from_point row_line (Whole 0) (PyInt 0, PyInt 3) 0
                  [Grid [[False, True, True, True]]] = Some (res, h'))
   \<and> draw_line_upwards_from_point row_line (Whole 0) (PyInt 0, PyInt 3) 0
        [Grid [[False, True, True, True]]]
       = Some (Inr (Whole 2),
               [Grid [[False, True, True, True]], Bytes [[0, 1, 0, 0]],
                Grid [[False, True, False, False]]])"
proof -
  have val: "bool_value [Grid [[False, True, True, True]]] (Whole 0)
                 = Some [[False, True, True, True]]"
    by (simp add: bool_value_def lookup_def)
  have reachable: "\<exists>c' < nat 3. \<not> [[False, True, True, True]] ! nat 0 ! c'"
    by (rule exI [of _ 0]) simp
  have run: "draw_line_upwards_from_point row_line (Whole 0) (PyInt 0, PyInt 3) 0
        [Grid [[False, True, True, True]]]
       = Some (Inr (Whole 2),
               [Grid [[False, True, True, True]], Bytes [[0, 1, 0, 0]],
                Grid [[False, True, False, False]]])"
    by code_simp
  show ?thesis
    using draw_line_upwards_from_point_terminates [OF val _ _ _ _ reachable, of row_line]
      val run
    by simp
qed

section \<open>Properties of the pin-hole pass\<close>

lemma pin_hole_loop_runs:
  "\<exists>res h'. pin_hole_loop line_aa contours m h = Some (res, h') \<and> prefix h h'"
proof (induction contours arbitrary: m h)
  case Nil
  show ?case by simp
next
  case (Cons child_contour rest)
  show ?case
  proof (cases child_contour)
    case Nil
    then show ?thesis by simp
  next
    case (Cons p ps)
    obtain r c where p: "p = (r, c)" by (cases p)
    obtain res h1 where
      d: "draw_line_upwards_from_point line_aa m (NpFloat r, NpFloat c) 0 h = Some (res, h1)"
      and p1: "prefix h h1"
      using draw_line_upwards_from_point_runs by blast
    show ?thesis
    proof (cases res)
      case (Inl err)
      then show ?thesis using d p1 Cons p by simp
    next
      case (Inr drawn)
      obtain res2 h2 where l: "pin_hole_loop line_aa rest drawn h1 = Some (res2, h2)"
        and p2: "prefix h1 h2"
        using Cons.IH by blast
      have "prefix h h2" using p1 p2 by (rule prefix_order.trans)
      then show ?thesis using d Inr l Cons p by simp
    qed
  qed
qed

lemma copy_cases:
  "copy m h = (Inl TypeError, h) \<and> bool_value h m = None
   \<or> (\<exists>g. bool_value h m = Some g \<and> copy m h = (Inr (Whole (length h)), h @ [Grid g]))"
  by (auto simp: copy_def alloc_def split: option.splits)

lemma create_pin_hole_mask_runs:
  "\<exists>res h'. create_pin_hole_mask find_contours line_aa m approx h = Some (res, h')
      \<and> prefix h h'"
proof (cases "bool_value h m")
  case None
  then show ?thesis by (simp add: create_pin_hole_mask_def find_mask_contours_def)
next
  case (Some g)
  then have c: "copy m h = (Inr (Whole (length h)), h @ [Grid g])"
    using copy_cases [of m h] by auto
  show ?thesis
  proof (cases "find_contours g")
    case (Inl err)
    then show ?thesis by (simp add: create_pin_hole_mask_def find_mask_contours_def Some)
  next
    case (Inr contours)
    obtain res h2 where
      l: "pin_hole_loop line_aa contours (Whole (length h)) (h @ [Grid g]) = Some (res, h2)"
      and p: "prefix (h @ [Grid g]) h2"
      using pin_hole_loop_runs by blast
    have "prefix h h2" using p by (meson prefix_order.trans prefixI)
    then show ?thesis
      using l by (simp add: create_pin_hole_mask_def find_mask_contours_def Some Inr c)
  qed
qed


lemma bool_value_fresh: "bool_value (h @ [Grid g]) (Whole (length h)) = Some g"
  by (simp add: bool_value_def lookup_def)


lemma ring_plane_value: "bool_value [Vol ring_volume] (PlaneOf 0 k) = Some (plane ring_volume k)"
  by (simp add: bool_value_def lookup_def)



lemma ring_traces:
  "ring_tracer (plane ring_volume 1) =
     Inr [[(1 / 2, 1), (1 / 2, 2), (1 / 2, 3), (1, 7 / 2), (2, 7 / 2), (3, 7 / 2),
           (7 / 2, 3), (7 / 2, 2), (7 / 2, 1), (3, 1 / 2), (2, 1 / 2), (1, 1 / 2),
           (1 / 2, 1)],
          [(2, 3 / 2), (3 / 2, 2), (2, 5 / 2), (5 / 2, 2), (2, 3 / 2)]]"
  "ring_tracer (plane ring_volume 2) = Inr []"
  by code_simp+

text \<open>
  Claim C3 asks that the carving line starts at the inner boundaries only and that the
  square with a hole ends up with one contour. The loop of \<^verbatim>\<open>create_pin_hole_mask\<close>
  runs over every contour of the tracer, and the start point it hands to
  \<^verbatim>\<open>draw_line_upwards_from_point\<close> is a pair of float64 coordinates, which cannot index
  the mask: whenever the tracer finds a contour, the pass raises an \<^verbatim>\<open>IndexError\<close> at the
  first contour and returns no mask.
\<close>

theorem create_pin_hole_mask_raises:
  assumes "bool_value h mask_ref = Some g"
    and "find_contours g = Inr contours" and "contours \<noteq> []"
  shows "\<exists>h1. create_pin_hole_mask find_contours line_aa mask_ref approx h
                = Some (Inl IndexError, h1)"
proof -
  from assms(3) obtain child_contour rest where cs: "contours = child_contour # rest"
    by (cases contours) auto
  have c: "copy mask_ref h = (Inr (Whole (length h)), h @ [Grid g])"
    using assms(1) copy_cases [of mask_ref h] by auto
  have "\<exists>h1. pin_hole_loop line_aa (child_contour # rest) (Whole (length h)) (h @ [Grid g])
               = Some (Inl IndexError, h1)"
  proof (cases child_contour)
    case Nil
    then show ?thesis by simp
  next
    case (Cons p ps)
    obtain x y where p: "p = (x, y)" by (cases p)
    have "\<exists>h1. draw_line_upwards_from_point line_aa (Whole (length h)) (NpFloat x, NpFloat y) 0
                 (h @ [Grid g]) = Some (Inl IndexError, h1)"
      by (simp add: draw_line_upwards_from_point_def astype_uint8_def bool_value_fresh alloc_def)
    then show ?thesis using Cons p by auto
  qed
  then show ?thesis
    using assms(1,2) by (simp add: create_pin_hole_mask_def find_mask_contours_def cs c)
qed

theorem create_pin_hole_mask_raises_witness:
  "bool_value [Vol ring_volume] (PlaneOf 0 1) = Some (plane ring_volume 1)
   \<and> (\<exists>outer inner. ring_tracer (plane ring_volume 1) = Inr [outer, inner])
   \<and> (\<exists>h1. create_pin_hole_mask ring_tracer row_line (PlaneOf 0 1) True [Vol ring_volume]
              = Some (Inl IndexError, h1))
   \<and> create_pin_hole_mask ring_tracer row_line (PlaneOf 0 1) True [Vol ring_volume]
       = Some (Inl IndexError,
               [Vol ring_volume, Grid (plane ring_volume 1),
                Bytes [[0, 0, 0, 0, 0], [0, 1, 1, 1, 0], [0, 1, 0, 1, 0], [0, 1, 1, 1, 0],
                       [0, 0, 0, 0, 0]]])"
proof -
  have run: "create_pin_hole_mask ring_tracer row_line (PlaneOf 0 1) True [Vol ring_volume]
       = Some (Inl IndexError,
               [Vol ring_volume, Grid (plane ring_volume 1),
                Bytes [[0, 0, 0, 0, 0], [0, 1, 1, 1, 0], [0, 1, 0, 1, 0], [0, 1, 1, 1, 0],
                       [0, 0, 0, 0, 0]]])"
    by code_simp
  show ?thesis
    using create_pin_hole_mask_raises [where h = "[Vol ring_volume]" and mask_ref = "PlaneOf 0 1"
        and g = "plane ring_volume 1" and find_contours = ring_tracer and line_aa = row_line
        and approx = True, OF ring_plane_value [of 1] ring_traces(1)]
      run ring_plane_value [of 1] ring_traces(1)
    by simp
qed

text \<open>
  Claim C9. The flag \<^verbatim>\<open>approximate_contours\<close> has no effect: \<^verbatim>\<open>find_mask_contours\<close> and
  \<^verbatim>\<open>create_pin_hole_mask\<close> give the same result and the same store for both values.
\<close>

theorem flag_has_no_effect:
  "find_mask_contours find_contours mask_ref True h
     = find_mask_contours find_contours mask_ref False h
   \<and> create_pin_hole_mask find_contours line_aa mask_ref True h
     = create_pin_hole_mask find_contours line_aa mask_ref False h"
  by (simp add: find_mask_contours_def create_pin_hole_mask_def)

theorem flag_has_no_effect_witness:
  "find_mask_contours ring_tracer (PlaneOf 0 1) True [Vol ring_volume]
     = find_mask_contours ring_tracer (PlaneOf 0 1) False [Vol ring_volume]
   \<and> create_pin_hole_mask ring_tracer row_line (PlaneOf 0 2) True [Vol ring_volume]
     = create_pin_hole_mask ring_tracer row_line (PlaneOf 0 2) False [Vol ring_volume]"
  using flag_has_no_effect [of ring_tracer "PlaneOf 0 1" "[Vol ring_volume]"]
    flag_has_no_effect [of ring_tracer "PlaneOf 0 2" "[Vol ring_volume]" row_line]
  by simp

section \<open>Properties of the mask-to-contours conversion\<close>

lemma slice_contours_runs:
  "\<exists>res h'. slice_contours find_contours line_aa roi_data M i h = Some (res, h') \<and> prefix h h'"
proof (cases "use_pin_hole roi_data")
  case False
  then show ?thesis
    by (auto simp: slice_contours_def Let_def split: sum.splits)
next
  case True
  show ?thesis
  proof (cases "take_plane h (roi_mask roi_data) i")
    case (Inl err)
    then show ?thesis by (simp add: slice_contours_def)
  next
    case (Inr mask_slice)
    obtain res1 h1 where
      c: "create_pin_hole_mask find_contours line_aa mask_slice (approximate_contours roi_data) h
            = Some (res1, h1)" and p: "prefix h h1"
      using create_pin_hole_mask_runs by blast
    show ?thesis
      using True Inr c p
      by (auto simp: slice_contours_def Let_def split: sum.splits)
  qed
qed

lemma contours_loop_runs:
  "\<exists>res h'. contours_loop find_contours line_aa roi_data M i series acc h = Some (res, h')
      \<and> prefix h h'"
proof (induction series arbitrary: i acc h)
  case Nil
  show ?case by simp
next
  case (Cons series_slice rest)
  obtain res1 h1 where
    s: "slice_contours find_contours line_aa roi_data M i h = Some (res1, h1)"
    and p1: "prefix h h1"
    using slice_contours_runs by blast
  show ?case
  proof (cases res1)
    case (Inl err)
    then show ?thesis using s p1 by simp
  next
    case (Inr formatted)
    obtain res2 h2 where
      l: "contours_loop find_contours line_aa roi_data M (Suc i) rest (acc @ [formatted]) h1
            = Some (res2, h2)" and p2: "prefix h1 h2"
      using Cons.IH by blast
    have "prefix h h2" using p1 p2 by (rule prefix_order.trans)
    then show ?thesis using s Inr l by simp
  qed
qed

lemma get_contours_coords_runs:
  "\<exists>res h'. get_contours_coords f32 find_contours line_aa roi_data series_data h = Some (res, h')
     \<and> prefix h h'"
proof (cases "get_pixel_to_patient_transformation_matrix f32 series_data")
  case (Inl err)
  then show ?thesis by (simp add: get_contours_coords_def)
next
  case (Inr M)
  then show ?thesis
    using contours_loop_runs [of find_contours line_aa roi_data M 0 series_data "[]" h]
    by (simp add: get_contours_coords_def)
qed

lemma three_slices_matrix:
  "get_pixel_to_patient_transformation_matrix (\<lambda>x. x)
     [pixel_slice ''1.2.840.10'' 0, pixel_slice ''1.2.840.11'' 1, pixel_slice ''1.2.840.12'' 2]
   = Inr identity4"
  by (simp add: get_pixel_to_patient_transformation_matrix_def get_spacing_between_slices_def
      get_slice_position_def pixel_slice_directions Let_def times_scalar_def
      assign_column_def put_def identity4_def dot_def)
     (simp add: pixel_slice_def dot_def)


lemma three_slices_pin_hole_run:
  "contours_loop ring_tracer row_line (ring_roi True) identity4 0
     [pixel_slice ''1.2.840.10'' 0, pixel_slice ''1.2.840.11'' 1, pixel_slice ''1.2.840.12'' 2]
     [] [Vol ring_volume]
   = Some (Inl IndexError,
           [Vol ring_volume, Grid (plane ring_volume 1),
            Bytes [[0, 0, 0, 0, 0], [0, 1, 1, 1, 0], [0, 1, 0, 1, 0], [0, 1, 1, 1, 0],
                   [0, 0, 0, 0, 0]]])"
  by code_simp


text \<open>
  Claim C10. \<^verbatim>\<open>get_contours_coords\<close> ends on every input, with a result or an exception,
  and the store it leaves has the store it started from as a prefix: every array that
  existed before the call, the caller's mask among them, holds the same value after it,
  also when the pin-hole pass ran and when the call raised.
\<close>

theorem get_contours_coords_leaves_mask:
  "\<exists>res h'. get_contours_coords f32 find_contours line_aa roi_data series_data h = Some (res, h')
     \<and> prefix h h'
     \<and> (\<forall>v. lookup h (roi_mask roi_data) = Some v \<longrightarrow> lookup h' (roi_mask roi_data) = Some v)"
  using get_contours_coords_runs [of f32 find_contours line_aa roi_data series_data h]
    prefix_lookup by blast

theorem get_contours_coords_leaves_mask_witness:
  "lookup [Vol ring_volume] (roi_mask (ring_roi True)) = Some (Vol ring_volume)
   \<and> (\<exists>res h'. get_contours_coords (\<lambda>x. x) ring_tracer row_line (ring_roi True)
         [pixel_slice ''1.2.840.10'' 0, pixel_slice ''1.2.840.11'' 1,
          pixel_slice ''1.2.840.12'' 2] [Vol ring_volume] = Some (res, h')
         \<and> lookup h' (roi_mask (ring_roi True)) = Some (Vol ring_volume))
   \<and> get_contours_coords (\<lambda>x. x) ring_tracer row_line (ring_roi True)
         [pixel_slice ''1.2.840.10'' 0, pixel_slice ''1.2.840.11'' 1,
          pixel_slice ''1.2.840.12'' 2] [Vol ring_volume]
       = Some (Inl IndexError,
           [Vol ring_volume, Grid (plane ring_volume 1),
            Bytes [[0, 0, 0, 0, 0], [0, 1, 1, 1, 0], [0, 1, 0, 1, 0], [0, 1, 1, 1, 0],
                   [0, 0, 0, 0, 0]]])"
proof -
  have look: "lookup [Vol ring_volume] (roi_mask (ring_roi True)) = Some (Vol ring_volume)"
    by (simp add: ring_roi_def lookup_def)
  have run: "get_contours_coords (\<lambda>x. x) ring_tracer row_line (ring_roi True)
         [pixel_slice ''1.2.840.10'' 0, pixel_slice ''1.2.840.11'' 1,
          pixel_slice ''1.2.840.12'' 2] [Vol ring_volume]
       = Some (Inl IndexError,
           [Vol ring_volume, Grid (plane ring_volume 1),
            Bytes [[0, 0, 0, 0, 0], [0, 1, 1, 1, 0], [0, 1, 0, 1, 0], [0, 1, 1, 1, 0],
                   [0, 0, 0, 0, 0]]])"
    unfolding get_contours_coords_def three_slices_matrix
    by (simp only: sum.case three_slices_pin_hole_run)
  show ?thesis
    using get_contours_coords_leaves_mask [of "\<lambda>x. x" ring_tracer row_line "ring_roi True"
        "[pixel_slice ''1.2.840.10'' 0, pixel_slice ''1.2.840.11'' 1,
          pixel_slice ''1.2.840.12'' 2]" "[Vol ring_volume]"] look run
    by auto
qed









end
